theory Spec2Isabelle
  imports Main
begin

section \<open>The usage ledger\<close>

text \<open>
  The \<open>User\<close> table as the handlers of \<open>index.ts\<close> see it. Timestamps are JavaScript
  \<open>Date\<close> values, compared through their time value: integer milliseconds since the epoch.
  \<open>paidUntil\<close> is nullable (the handler tests it for truthiness before comparing it).
  \<open>requestCount\<close> is an \<open>INTEGER\<close> column of the migration: a signed 32-bit number, which
  the database keeps at or below 2147483647.
  The source's field \<open>id\<close> is called \<open>uid\<close> here, since \<open>id\<close> is the identity function of HOL.
\<close>

record User =
  uid :: string
  email :: string
  createdAt :: int
  requestCount :: int
  lastLogin :: int
  paidUntil :: "int option"

text \<open>
  The persistence layer is reached through three Prisma calls: \<open>findUnique\<close>, \<open>create\<close> and
  \<open>update\<close>. The world holds the rows and a log of the calls that read or changed a row, so
  that "no row was read or written" is a statement about the log.
\<close>

datatype db_op =
    FindUniqueById string
  | FindUniqueByEmail string
  | CreateRow string
  | UpdateRow string

record world =
  users :: "User list"
  dblog :: "db_op list"

datatype prisma_error =
  ValidationError | RecordNotFound | UniqueConstraintFailed | ValueOutOfRange

definition find_user :: "string \<Rightarrow> User list \<Rightarrow> User option" where
  "find_user i us = find (\<lambda>u. uid u = i) us"

definition find_email :: "string \<Rightarrow> User list \<Rightarrow> User option" where
  "find_email e us = find (\<lambda>u. email u = e) us"

text \<open>
  \<open>prisma.user.findUnique({ where: { id } })\<close>. An undefined \<open>id\<close> leaves the unique filter
  empty, which the client rejects before any query is sent.
\<close>

definition findUnique_id :: "world \<Rightarrow> string option \<Rightarrow> prisma_error + (world \<times> User option)" where
  "findUnique_id w i =
     (case i of
        None \<Rightarrow> Inl ValidationError
      | Some k \<Rightarrow> Inr (w\<lparr>dblog := dblog w @ [FindUniqueById k]\<rparr>, find_user k (users w)))"

definition findUnique_email :: "world \<Rightarrow> string option \<Rightarrow> prisma_error + (world \<times> User option)" where
  "findUnique_email w e =
     (case e of
        None \<Rightarrow> Inl ValidationError
      | Some k \<Rightarrow> Inr (w\<lparr>dblog := dblog w @ [FindUniqueByEmail k]\<rparr>, find_email k (users w)))"

text \<open>
  \<open>prisma.user.update({ where: { id }, data })\<close>: the row with that primary key is rewritten by
  \<open>f\<close>; the call throws when no such row exists.
\<close>

definition update_user :: "world \<Rightarrow> string option \<Rightarrow> (User \<Rightarrow> User) \<Rightarrow> prisma_error + world" where
  "update_user w i f =
     (case i of
        None \<Rightarrow> Inl ValidationError
      | Some k \<Rightarrow>
          (case find_user k (users w) of
             None \<Rightarrow> Inl RecordNotFound
           | Some _ \<Rightarrow>
               Inr (w\<lparr>users := map (\<lambda>u. if uid u = k then f u else u) (users w),
                       dblog := dblog w @ [UpdateRow k]\<rparr>)))"

text \<open>
  \<open>prisma.user.update({ where: { id }, data: { requestCount: { increment: 1 }, lastLogin: now } })\<close>:
  the database adds 1 to the stored counter and rejects the statement ("integer out of
  range") when the sum does not fit the \<open>INTEGER\<close> column; the call then throws and the row
  stays as it was.
\<close>

definition INT4_MAX :: int where
  "INT4_MAX = 2147483647"

definition update_user_increment :: "world \<Rightarrow> string option \<Rightarrow> int \<Rightarrow> prisma_error + world" where
  "update_user_increment w i now =
     (case i of
        None \<Rightarrow> Inl ValidationError
      | Some k \<Rightarrow>
          (case find_user k (users w) of
             None \<Rightarrow> Inl RecordNotFound
           | Some u \<Rightarrow>
               if INT4_MAX < requestCount u + 1 then Inl ValueOutOfRange
               else update_user w i
                      (\<lambda>v. v\<lparr>requestCount := requestCount v + 1, lastLogin := now\<rparr>)))"

text \<open>
  \<open>prisma.user.create({ data: { email } })\<close>. The identifier is generated for the new row and
  arrives here as \<open>new_id\<close>; both \<open>id\<close> and \<open>email\<close> are unique keys of the table. The
  migration gives \<open>requestCount\<close> the default 0 and \<open>createdAt\<close> the current timestamp.

  Modelled from the spec: the schema that declares \<open>paidUntil\<close> and the default of
  \<open>lastLogin\<close> is not among the sources; a created row has no \<open>paidUntil\<close>, and its
  \<open>lastLogin\<close> is taken to be the creation time.
\<close>

definition create_user ::
  "world \<Rightarrow> string \<Rightarrow> int \<Rightarrow> string option \<Rightarrow> prisma_error + (world \<times> User)" where
  "create_user w new_id now mail =
     (case mail of
        None \<Rightarrow> Inl ValidationError
      | Some e \<Rightarrow>
          if find_user new_id (users w) \<noteq> None \<or> find_email e (users w) \<noteq> None
          then Inl UniqueConstraintFailed
          else
            (let u = \<lparr>uid = new_id, email = e, createdAt = now, requestCount = 0,
                      lastLogin = now, paidUntil = None\<rparr>
             in Inr (w\<lparr>users := users w @ [u], dblog := dblog w @ [CreateRow new_id]\<rparr>, u)))"

section \<open>Configuration, collaborators and responses\<close>

record env =
  JWT_SECRET :: string
  CLIENT_ID :: string
  REDIRECT_URI :: string
  STRIPE_WEBHOOK_SECRET :: string

datatype jval = JStr string | JBool bool | JNull

text \<open>
  \<open>Json s kvs\<close> is \<open>c.json(kvs, s)\<close>, \<open>Text s t\<close> is \<open>c.text(t, s)\<close>, and \<open>Redirect url tok\<close> is
  \<open>c.redirect(url)\<close> after the signed cookie \<open>token = tok\<close> was set.
\<close>

datatype response =
    Json nat "(string \<times> jval) list"
  | Text nat string
  | Redirect string string

text \<open>
  An exception that no handler catches ends in the framework's default error handler,
  which answers 500 with a plain text body.
\<close>

definition internal_server_error :: response where
  "internal_server_error = Text 500 ''Internal Server Error''"

record stripe_event =
  event_type :: string
  client_reference_id :: "string option"

datatype stripe_error = StripeSignatureVerificationError | StripeAPIError

datatype jwt_error = JwtTokenInvalid | JwtTokenSignatureMismatched

text \<open>The payload of a verified token; \<open>userId\<close> is whatever the payload holds under that key.\<close>

record jwt_payload =
  userId :: "string option"

datatype upstream_error = UpstreamAuthError string

text \<open>
  The external collaborators, as functions the handlers call:
  the signature check of the payment provider's library (payload, header, secret),
  the token library (\<open>verify\<close> and \<open>sign\<close>), checkout-session creation (the session's
  \<open>url\<close>, which may be null), the identity provider (authorization code to the account's
  email, when the reply carries one), and the identifier generated for a new row.
\<close>

record collab =
  stripe_check :: "string \<Rightarrow> string \<Rightarrow> string \<Rightarrow> stripe_error + stripe_event"
  jwt_verify :: "string \<Rightarrow> string \<Rightarrow> jwt_error + jwt_payload"
  jwt_sign :: "string \<Rightarrow> string \<Rightarrow> string"
  create_session :: "string option \<Rightarrow> stripe_error + string option"
  google_exchange :: "string option \<Rightarrow> upstream_error + string option"
  new_id :: "User list \<Rightarrow> string"

text \<open>
  \<open>Stripe.webhooks.constructEventAsync(rawBody, sig, secret)\<close>: the library throws its
  signature verification error when no payload or no header value was provided, and otherwise
  checks the header against the payload and the secret.
\<close>

definition constructEventAsync ::
  "collab \<Rightarrow> string \<Rightarrow> string option \<Rightarrow> string \<Rightarrow> stripe_error + stripe_event" where
  "constructEventAsync cl rawBody sig secret =
     (if rawBody = [] then Inl StripeSignatureVerificationError
      else
        (case sig of
           None \<Rightarrow> Inl StripeSignatureVerificationError
         | Some h \<Rightarrow>
             if h = [] then Inl StripeSignatureVerificationError
             else stripe_check cl rawBody h secret))"

section \<open>The access decision\<close>

datatype decision = ALLOW | REQUIRE_PAYMENT

text \<open>
  The condition of the \<open>/protected\<close> handler:
  \<^verbatim>\<open>user.requestCount < 4 || user.paidUntil && user.paidUntil > now\<close>.
  \<open>&&\<close> binds tighter than \<open>||\<close>; a null \<open>paidUntil\<close> is falsy and every \<open>Date\<close> is truthy.
\<close>

definition paid_active :: "User \<Rightarrow> int \<Rightarrow> bool" where
  "paid_active user now = (case paidUntil user of None \<Rightarrow> False | Some t \<Rightarrow> now < t)"

definition decide :: "User \<Rightarrow> int \<Rightarrow> decision" where
  "decide user now =
     (if requestCount user < 4 \<or> paid_active user now then ALLOW else REQUIRE_PAYMENT)"

section \<open>The handlers\<close>

text \<open>
  \<open>endOfDay.setDate(endOfDay.getDate() + 1)\<close> on \<open>new Date()\<close>: the same time of day on the
  next calendar day. The calendar is taken in UTC, the local zone of the edge runtime the
  application is written for, where every day has 86400000 ms.
\<close>

definition msPerDay :: int where
  "msPerDay = 86400000"

definition endOfDay :: "int \<Rightarrow> int" where
  "endOfDay now = now + msPerDay"

definition signature_failed :: response where
  "signature_failed = Json 400 [(''error'', JStr ''Webhook signature verification failed.'')]"

definition received :: response where
  "received = Json 200 [(''received'', JBool True)]"

text \<open>\<open>app.post('/webhook')\<close>, with the clock read by \<open>new Date()\<close> as \<open>now\<close>.\<close>

definition webhook ::
  "collab \<Rightarrow> env \<Rightarrow> int \<Rightarrow> string option \<Rightarrow> string \<Rightarrow> world \<Rightarrow> world \<times> response" where
  "webhook cl e now sig rawBody w =
     (case constructEventAsync cl rawBody sig (STRIPE_WEBHOOK_SECRET e) of
        Inl err \<Rightarrow> (w, signature_failed)
      | Inr event \<Rightarrow>
          if event_type event = ''checkout.session.completed'' then
            (case update_user w (client_reference_id event)
                    (\<lambda>u. u\<lparr>paidUntil := Some (endOfDay now)\<rparr>) of
               Inl err \<Rightarrow> (w, internal_server_error)
             | Inr w' \<Rightarrow> (w', received))
          else (w, received))"

definition googleAuthURL :: "env \<Rightarrow> string" where
  "googleAuthURL e =
     ''https://accounts.google.com/o/oauth2/v2/auth?response_type=code&client_id='' @ CLIENT_ID e
       @ ''&redirect_uri='' @ REDIRECT_URI e @ ''&scope=openid%20email''"

definition not_authenticated :: "env \<Rightarrow> response" where
  "not_authenticated e =
     Json 401 [(''error'', JStr ''User not authenticated''), (''signInUrl'', JStr (googleAuthURL e))]"

definition invalid_token :: "env \<Rightarrow> response" where
  "invalid_token e =
     Json 401 [(''error'', JStr ''Invalid token''), (''signInUrl'', JStr (googleAuthURL e))]"

text \<open>
  What \<open>getSignedCookie(c, JWT_SECRET, 'token')\<close> returns: \<open>undefined\<close> (no such cookie),
  \<open>false\<close> (the cookie's signature does not match) or the cookie's value.
\<close>

datatype cookie = NoCookie | BadCookieSignature | CookieValue string

text \<open>
  The middleware registered with \<open>app.use\<close>. \<open>next\<close> is the rest of the chain, run with the
  \<open>userId\<close> stored in the context; it answers its own exceptions (with
  \<open>internal_server_error\<close>), so the \<open>catch\<close> of the middleware sees those of \<open>verify\<close> only.
  \<open>!token\<close> holds for \<open>undefined\<close>, for \<open>false\<close> and for the empty string.
\<close>

definition auth_middleware ::
  "collab \<Rightarrow> env \<Rightarrow> cookie \<Rightarrow> (string option \<Rightarrow> world \<Rightarrow> world \<times> response) \<Rightarrow> world
     \<Rightarrow> world \<times> response" where
  "auth_middleware cl e ck next w =
     (case ck of
        NoCookie \<Rightarrow> (w, not_authenticated e)
      | BadCookieSignature \<Rightarrow> (w, not_authenticated e)
      | CookieValue token \<Rightarrow>
          if token = [] then (w, not_authenticated e)
          else
            (case jwt_verify cl token (JWT_SECRET e) of
               Inl err \<Rightarrow> (w, invalid_token e)
             | Inr payload \<Rightarrow> next (userId payload) w))"

definition user_not_found :: response where
  "user_not_found = Json 404 [(''error'', JStr ''User not found'')]"

definition authenticated :: response where
  "authenticated = Json 200 [(''message'', JStr ''You are authenticated'')]"

definition payment_required :: "string option \<Rightarrow> response" where
  "payment_required url =
     Json 200 [(''error'', JStr ''Payment required''),
               (''stripeSessionUrl'', (case url of None \<Rightarrow> JNull | Some s \<Rightarrow> JStr s))]"

text \<open>\<open>app.get('/protected')\<close>, with the context's \<open>userId\<close> and the clock as \<open>now\<close>.\<close>

definition protected ::
  "collab \<Rightarrow> int \<Rightarrow> string option \<Rightarrow> world \<Rightarrow> world \<times> response" where
  "protected cl now i w =
     (case findUnique_id w i of
        Inl err \<Rightarrow> (w, internal_server_error)
      | Inr (w1, None) \<Rightarrow> (w1, user_not_found)
      | Inr (w1, Some user) \<Rightarrow>
          (case decide user now of
             ALLOW \<Rightarrow>
               (case update_user_increment w1 i now of
                  Inl err \<Rightarrow> (w1, internal_server_error)
                | Inr w2 \<Rightarrow> (w2, authenticated))
           | REQUIRE_PAYMENT \<Rightarrow>
               (case create_session cl i of
                  Inl err \<Rightarrow> (w1, internal_server_error)
                | Inr url \<Rightarrow> (w1, payment_required url))))"

definition oauth_failed :: "string \<Rightarrow> response" where
  "oauth_failed details =
     Json 500 [(''error'', JStr ''OAuth callback failed''), (''details'', JStr details)]"

text \<open>The \<open>catch\<close> reports \<open>error.message\<close>; the client's message texts are abbreviated.\<close>

definition prisma_message :: "prisma_error \<Rightarrow> string" where
  "prisma_message err =
     (case err of
        ValidationError \<Rightarrow> ''invalid invocation''
      | RecordNotFound \<Rightarrow> ''record not found''
      | UniqueConstraintFailed \<Rightarrow> ''unique constraint failed''
      | ValueOutOfRange \<Rightarrow> ''value out of range'')"

definition landing :: string where
  "landing = ''https://chatgpt.com/g/g-dDhU9UEws-cryptobot''"

text \<open>
  \<open>app.get('/oauth/callback')\<close>: the whole body is inside one \<open>try\<close>, so a failure of the
  identity provider or of the ledger is answered with 500 and its message.
\<close>

definition oauth_callback ::
  "collab \<Rightarrow> env \<Rightarrow> int \<Rightarrow> string option \<Rightarrow> world \<Rightarrow> world \<times> response" where
  "oauth_callback cl e now code w =
     (case google_exchange cl code of
        Inl (UpstreamAuthError msg) \<Rightarrow> (w, oauth_failed msg)
      | Inr mail \<Rightarrow>
          (case findUnique_email w mail of
             Inl err \<Rightarrow> (w, oauth_failed (prisma_message err))
           | Inr (w1, Some user) \<Rightarrow>
               (w1, Redirect landing (jwt_sign cl (uid user) (JWT_SECRET e)))
           | Inr (w1, None) \<Rightarrow>
               (case create_user w1 (new_id cl (users w1)) now mail of
                  Inl err \<Rightarrow> (w1, oauth_failed (prisma_message err))
                | Inr (w2, user) \<Rightarrow>
                    (w2, Redirect landing (jwt_sign cl (uid user) (JWT_SECRET e))))))"

section \<open>Requests and runs\<close>

text \<open>
  The routes in the order the application registers them: the callback and the webhook
  answer before the middleware is reached; \<open>/protected\<close> runs behind it.
\<close>

datatype request =
    GetOAuthCallback "string option"
  | PostWebhook "string option" string
  | GetProtected cookie

fun handle :: "collab \<Rightarrow> env \<Rightarrow> int \<times> request \<Rightarrow> world \<Rightarrow> world \<times> response" where
  "handle cl e (now, GetOAuthCallback code) w = oauth_callback cl e now code w"
| "handle cl e (now, PostWebhook sig rawBody) w = webhook cl e now sig rawBody w"
| "handle cl e (now, GetProtected ck) w = auth_middleware cl e ck (protected cl now) w"

text \<open>A run handles timed requests one after the other and collects the responses.\<close>

fun run :: "collab \<Rightarrow> env \<Rightarrow> (int \<times> request) list \<Rightarrow> world \<Rightarrow> world \<times> response list" where
  "run cl e [] w = (w, [])"
| "run cl e (r # rs) w =
     (case handle cl e r w of
        (w1, resp) \<Rightarrow> (case run cl e rs w1 of (w2, resps) \<Rightarrow> (w2, resp # resps)))"

section \<open>Notions of the specification\<close>




text \<open>
  The specification's wording for the new expiry, "start of the next day from the moment
  the payment event is processed": midnight after \<open>now\<close>.
\<close>

definition spec_startOfNextDay :: "int \<Rightarrow> int" where
  "spec_startOfNextDay now = (now div msPerDay + 1) * msPerDay"

section \<open>A concrete configuration\<close>

text \<open>
  Stand-ins for the collaborators, used to run the handlers on concrete requests. The
  signature check accepts the header that equals the secret; the payload \<open>ping\<close> is an event
  of another type, every other payload a completed checkout whose client reference is the
  payload. A session token is the secret followed by the user identifier; the secret alone
  is a signed token whose payload has no \<open>userId\<close>.
\<close>

definition demo_stripe_check :: "string \<Rightarrow> string \<Rightarrow> string \<Rightarrow> stripe_error + stripe_event" where
  "demo_stripe_check rawBody h secret =
     (if h \<noteq> secret then Inl StripeSignatureVerificationError
      else if rawBody = ''ping'' then Inr \<lparr>event_type = ''ping'', client_reference_id = None\<rparr>
      else Inr \<lparr>event_type = ''checkout.session.completed'', client_reference_id = Some rawBody\<rparr>)"

definition demo_jwt_verify :: "string \<Rightarrow> string \<Rightarrow> jwt_error + jwt_payload" where
  "demo_jwt_verify token secret =
     (if take (length secret) token \<noteq> secret then Inl JwtTokenSignatureMismatched
      else if drop (length secret) token = [] then Inr \<lparr>userId = None\<rparr>
      else Inr \<lparr>userId = Some (drop (length secret) token)\<rparr>)"

definition demo_jwt_sign :: "string \<Rightarrow> string \<Rightarrow> string" where
  "demo_jwt_sign i secret = secret @ i"

definition demo_create_session :: "string option \<Rightarrow> stripe_error + string option" where
  "demo_create_session i = Inr (Some ''https://checkout.example/session'')"

definition demo_google_exchange :: "string option \<Rightarrow> upstream_error + string option" where
  "demo_google_exchange code =
     (case code of
        None \<Rightarrow> Inl (UpstreamAuthError ''Request failed with status code 400'')
      | Some c \<Rightarrow> Inr (Some (c @ ''@example.com'')))"

definition demo_new_id :: "User list \<Rightarrow> string" where
  "demo_new_id us = replicate (Suc (length us)) CHR ''u''"

definition demo_collab :: collab where
  "demo_collab =
     \<lparr>stripe_check = demo_stripe_check, jwt_verify = demo_jwt_verify, jwt_sign = demo_jwt_sign,
      create_session = demo_create_session, google_exchange = demo_google_exchange,
      new_id = demo_new_id\<rparr>"

definition demo_env :: env where
  "demo_env =
     \<lparr>JWT_SECRET = ''jwt:'', CLIENT_ID = ''client'', REDIRECT_URI = ''https://app.example/cb'',
      STRIPE_WEBHOOK_SECRET = ''whsec''\<rparr>"

definition alice :: User where
  "alice = \<lparr>uid = ''alice'', email = ''alice@example.com'', createdAt = 0, requestCount = 0,
            lastLogin = 0, paidUntil = None\<rparr>"

definition bob :: User where
  "bob = \<lparr>uid = ''bob'', email = ''bob@example.com'', createdAt = 0, requestCount = 10,
          lastLogin = 500, paidUntil = Some 50000000\<rparr>"

definition carol :: User where
  "carol = \<lparr>uid = ''carol'', email = ''carol@example.com'', createdAt = 0, requestCount = 4,
            lastLogin = 700, paidUntil = None\<rparr>"

definition demo_world :: world where
  "demo_world = \<lparr>users = [alice, bob, carol], dblog = []\<rparr>"

text \<open>A paying user whose counter stands at the upper bound of the column.\<close>

definition erin :: User where
  "erin = \<lparr>uid = ''erin'', email = ''erin@example.com'', createdAt = 0,
           requestCount = 2147483647, lastLogin = 900, paidUntil = Some 50000000\<rparr>"

definition bound_world :: world where
  "bound_world = \<lparr>users = [erin], dblog = []\<rparr>"

section \<open>Facts about the ledger and the handlers\<close>

lemma find_user_append:
  "find_user i (us @ [u]) =
     (case find_user i us of Some x \<Rightarrow> Some x | None \<Rightarrow> if uid u = i then Some u else None)"
  by (induction us) (simp_all add: find_user_def)

lemma find_user_update:
  assumes "\<And>v. uid (f v) = uid v"
  shows "find_user i (map (\<lambda>u. if uid u = k then f u else u) us) =
         map_option (\<lambda>u. if i = k then f u else u) (find_user i us)"
  using assms by (induction us) (auto simp: find_user_def)

lemma update_user_present:
  assumes "find_user k (users w) = Some u"
  shows "update_user w (Some k) f =
     Inr (w\<lparr>users := map (\<lambda>u. if uid u = k then f u else u) (users w), dblog := dblog w @ [UpdateRow k]\<rparr>)"
  using assms by (simp add: update_user_def)

lemma update_user_increment_present:
  assumes "find_user k (users w) = Some u"
  shows "update_user_increment w (Some k) now =
     (if requestCount u < 2147483647
      then Inr (w\<lparr>users := map (\<lambda>v. if uid v = k
                                  then v\<lparr>requestCount := requestCount v + 1, lastLogin := now\<rparr>
                                  else v) (users w),
                 dblog := dblog w @ [UpdateRow k]\<rparr>)
      else Inl ValueOutOfRange)"
  using assms by (simp add: update_user_increment_def update_user_def INT4_MAX_def)

lemma protected_found:
  assumes "find_user i (users w) = Some user"
  shows "protected cl now (Some i) w =
     (case decide user now of
        ALLOW \<Rightarrow>
          if requestCount user < 2147483647
          then (w\<lparr>users := map (\<lambda>u. if uid u = i
                                then u\<lparr>requestCount := requestCount u + 1, lastLogin := now\<rparr>
                                else u) (users w),
                  dblog := dblog w @ [FindUniqueById i, UpdateRow i]\<rparr>, authenticated)
          else (w\<lparr>dblog := dblog w @ [FindUniqueById i]\<rparr>, internal_server_error)
      | REQUIRE_PAYMENT \<Rightarrow>
          (w\<lparr>dblog := dblog w @ [FindUniqueById i]\<rparr>,
           case create_session cl (Some i) of
             Inl err \<Rightarrow> internal_server_error
           | Inr url \<Rightarrow> payment_required url))"
proof -
  let ?w1 = "w\<lparr>dblog := dblog w @ [FindUniqueById i]\<rparr>"
  have f: "findUnique_id w (Some i) = Inr (?w1, Some user)"
    using assms by (simp add: findUnique_id_def)
  have "find_user i (users ?w1) = Some user"
    using assms by simp
  note u = update_user_increment_present [OF this, of now]
  show ?thesis
    by (simp add: protected_def f u split: decision.split sum.split)
qed

lemma protected_absent:
  assumes "find_user i (users w) = None"
  shows "protected cl now (Some i) w = (w\<lparr>dblog := dblog w @ [FindUniqueById i]\<rparr>, user_not_found)"
  using assms by (simp add: protected_def findUnique_id_def)

lemma protected_undefined:
  "protected cl now None w = (w, internal_server_error)"
  by (simp add: protected_def findUnique_id_def)

lemma protected_row:
  assumes "find_user i (users w) = Some u"
  shows "find_user i (users (fst (protected cl now k w))) = Some u \<or>
         find_user i (users (fst (protected cl now k w))) =
           Some (u\<lparr>requestCount := requestCount u + 1, lastLogin := now\<rparr>)"
proof (cases k)
  case None
  then show ?thesis using assms by (simp add: protected_undefined)
next
  case (Some j)
  show ?thesis
  proof (cases "find_user j (users w)")
    case None
    then show ?thesis using assms Some by (simp add: protected_absent)
  next
    case (Some user)
    have "find_user i (map (\<lambda>u. if uid u = j
             then u\<lparr>requestCount := requestCount u + 1, lastLogin := now\<rparr> else u) (users w))
          = map_option (\<lambda>u. if i = j
             then u\<lparr>requestCount := requestCount u + 1, lastLogin := now\<rparr> else u)
             (find_user i (users w))"
      by (rule find_user_update) simp
    then show ?thesis
      using assms \<open>k = Some j\<close> protected_found [OF Some, of cl now]
      by (cases "decide user now"; cases "requestCount user < 2147483647") auto
  qed
qed

lemma webhook_cases:
  "webhook cl e now sig rawBody w =
     (case constructEventAsync cl rawBody sig (STRIPE_WEBHOOK_SECRET e) of
        Inl err \<Rightarrow> (w, signature_failed)
      | Inr event \<Rightarrow>
          if event_type event \<noteq> ''checkout.session.completed'' then (w, received)
          else
            (case client_reference_id event of
               None \<Rightarrow> (w, internal_server_error)
             | Some k \<Rightarrow>
                 (case find_user k (users w) of
                    None \<Rightarrow> (w, internal_server_error)
                  | Some _ \<Rightarrow>
                      (w\<lparr>users := map (\<lambda>u. if uid u = k then u\<lparr>paidUntil := Some (endOfDay now)\<rparr> else u) (users w),
                         dblog := dblog w @ [UpdateRow k]\<rparr>, received))))"
  by (simp add: webhook_def update_user_def split: sum.split option.split)

lemma webhook_row:
  assumes "find_user i (users w) = Some u"
  shows "find_user i (users (fst (webhook cl e now sig rawBody w))) = Some u \<or>
         find_user i (users (fst (webhook cl e now sig rawBody w))) =
           Some (u\<lparr>paidUntil := Some (endOfDay now)\<rparr>)"
proof -
  have "find_user i (map (\<lambda>u. if uid u = k then u\<lparr>paidUntil := Some (endOfDay now)\<rparr> else u) (users w))
          = map_option (\<lambda>u. if i = k then u\<lparr>paidUntil := Some (endOfDay now)\<rparr> else u)
             (find_user i (users w))" for k
    by (rule find_user_update) simp
  then show ?thesis
    using assms by (auto simp: webhook_cases split: sum.split option.split)
qed

lemma oauth_callback_row:
  assumes "find_user i (users w) = Some u"
  shows "find_user i (users (fst (oauth_callback cl e now code w))) = Some u"
  using assms
  by (auto simp: oauth_callback_def findUnique_email_def create_user_def Let_def find_user_append
      split: sum.split option.split upstream_error.split)

lemma middleware_row:
  assumes "find_user i (users w) = Some u"
  shows "find_user i (users (fst (auth_middleware cl e ck (protected cl now) w))) = Some u \<or>
         find_user i (users (fst (auth_middleware cl e ck (protected cl now) w))) =
           Some (u\<lparr>requestCount := requestCount u + 1, lastLogin := now\<rparr>)"
  using assms protected_row [OF assms, of cl now]
  by (auto simp: auth_middleware_def split: cookie.split sum.split)

lemma handle_row:
  assumes "find_user i (users w) = Some u"
  shows "find_user i (users (fst (handle cl e (now, req) w))) = Some u
       \<or> (find_user i (users (fst (handle cl e (now, req) w))) = Some (u\<lparr>paidUntil := Some (endOfDay now)\<rparr>)
           \<and> (\<exists>sig rawBody. req = PostWebhook sig rawBody))
       \<or> (find_user i (users (fst (handle cl e (now, req) w))) =
             Some (u\<lparr>requestCount := requestCount u + 1, lastLogin := now\<rparr>)
           \<and> (\<exists>ck. req = GetProtected ck))"
proof (cases req)
  case (GetOAuthCallback code)
  then show ?thesis using oauth_callback_row [OF assms] by simp
next
  case (PostWebhook sig rawBody)
  then show ?thesis using webhook_row [OF assms, of cl e now sig rawBody] by auto
next
  case (GetProtected ck)
  then show ?thesis using middleware_row [OF assms, of cl e ck now] by auto
qed

lemma authenticated_neq:
  "payment_required url \<noteq> authenticated" "internal_server_error \<noteq> authenticated"
  "user_not_found \<noteq> authenticated"
  by (simp_all add: payment_required_def authenticated_def internal_server_error_def user_not_found_def)

text \<open>Runs only grow a user's counter, and never remove a row.\<close>

lemma handle_requestCount:
  assumes "find_user i (users w) = Some u"
  shows "\<exists>u'. find_user i (users (fst (handle cl e r w))) = Some u'
           \<and> requestCount u \<le> requestCount u'"
proof -
  obtain now req where r: "r = (now, req)" by (cases r)
  from handle_row [OF assms, of cl e now req] show ?thesis
    unfolding r by auto
qed

lemma run_requestCount:
  assumes "find_user i (users w) = Some u"
  shows "\<exists>u'. find_user i (users (fst (run cl e reqs w))) = Some u'
           \<and> requestCount u \<le> requestCount u'"
  using assms
proof (induction reqs arbitrary: w u)
  case Nil
  then show ?case by simp
next
  case (Cons r rs)
  from handle_requestCount [OF Cons.prems, of cl e r]
  obtain u1 where u1: "find_user i (users (fst (handle cl e r w))) = Some u1"
    and le1: "requestCount u \<le> requestCount u1"
    by blast
  from Cons.IH [OF u1]
  obtain u2 where u2: "find_user i (users (fst (run cl e rs (fst (handle cl e r w))))) = Some u2"
    and le2: "requestCount u1 \<le> requestCount u2"
    by blast
  have "fst (run cl e (r # rs) w) = fst (run cl e rs (fst (handle cl e r w)))"
    by (simp split: prod.split)
  with u2 le1 le2 show ?case by auto
qed

text \<open>The concrete configuration, evaluated.\<close>












lemma demo_rows:
  "find_user ''alice'' (users demo_world) = Some alice"
  "find_user ''bob'' (users demo_world) = Some bob"
  "find_user ''carol'' (users demo_world) = Some carol"
  "find_user ''ghost'' (users demo_world) = None"
  by (simp_all add: find_user_def demo_world_def alice_def bob_def carol_def)

lemma bound_row: "find_user ''erin'' (users bound_world) = Some erin"
  by (simp add: find_user_def bound_world_def erin_def)

lemma demo_events:
  "constructEventAsync demo_collab ''bob'' (Some ''whsec'') (STRIPE_WEBHOOK_SECRET demo_env) =
     Inr \<lparr>event_type = ''checkout.session.completed'', client_reference_id = Some ''bob''\<rparr>"
  "constructEventAsync demo_collab ''alice'' (Some ''whsec'') (STRIPE_WEBHOOK_SECRET demo_env) =
     Inr \<lparr>event_type = ''checkout.session.completed'', client_reference_id = Some ''alice''\<rparr>"
  "constructEventAsync demo_collab ''ghost'' (Some ''whsec'') (STRIPE_WEBHOOK_SECRET demo_env) =
     Inr \<lparr>event_type = ''checkout.session.completed'', client_reference_id = Some ''ghost''\<rparr>"
  "constructEventAsync demo_collab ''ping'' (Some ''whsec'') (STRIPE_WEBHOOK_SECRET demo_env) =
     Inr \<lparr>event_type = ''ping'', client_reference_id = None\<rparr>"
  "constructEventAsync demo_collab ''bob'' (Some ''forged'') (STRIPE_WEBHOOK_SECRET demo_env) =
     Inl StripeSignatureVerificationError"
  by (simp_all add: constructEventAsync_def demo_collab_def demo_stripe_check_def demo_env_def)

lemma demo_tokens:
  "jwt_verify demo_collab ''jwt:'' (JWT_SECRET demo_env) = Inr \<lparr>userId = None\<rparr>"
  "jwt_verify demo_collab ''jwt:alice'' (JWT_SECRET demo_env) = Inr \<lparr>userId = Some ''alice''\<rparr>"
  "jwt_verify demo_collab ''forged'' (JWT_SECRET demo_env) = Inl JwtTokenSignatureMismatched"
  by (simp_all add: demo_collab_def demo_jwt_verify_def demo_env_def)

lemma demo_run:
  "fst (run demo_collab demo_env
          [(1000, PostWebhook (Some ''whsec'') ''bob''), (2000, GetProtected (CookieValue ''jwt:carol'')),
           (3000, GetProtected (CookieValue ''jwt:alice''))] demo_world) =
   \<lparr>users = [alice\<lparr>requestCount := 1, lastLogin := 3000\<rparr>, bob\<lparr>paidUntil := Some 86401000\<rparr>, carol],
    dblog = [UpdateRow ''bob'', FindUniqueById ''carol'', FindUniqueById ''alice'', UpdateRow ''alice'']\<rparr>"
  by (simp add: webhook_cases demo_events demo_rows auth_middleware_def)
   (simp add: demo_collab_def demo_jwt_verify_def demo_env_def protected_def findUnique_id_def
      find_user_def demo_world_def alice_def bob_def carol_def decide_def paid_active_def
      demo_create_session_def update_user_increment_def update_user_def INT4_MAX_def
      endOfDay_def msPerDay_def)

section \<open>The access decision (C1)\<close>

text \<open>
  C1. The decision is ALLOW exactly when the user's \<open>requestCount\<close> is below 4 or the user's
  \<open>paidUntil\<close> is present and strictly later than the current time, and REQUIRE_PAYMENT in
  every other case; a user who is under quota and has an active \<open>paidUntil\<close> is allowed.
  For a user found in the ledger whose counter is below the bound of its column,
  \<open>/protected\<close> answers "You are authenticated" under exactly that condition.
\<close>

theorem decide_allow_iff:
  "decide user now =
     (if requestCount user < 4 \<or> (\<exists>t. paidUntil user = Some t \<and> now < t)
      then ALLOW else REQUIRE_PAYMENT)
   \<and> (requestCount user < 4 \<and> (\<exists>t. paidUntil user = Some t \<and> now < t)
        \<longrightarrow> decide user now = ALLOW)
   \<and> (find_user i (users w) = Some user \<and> requestCount user < 2147483647 \<longrightarrow>
        (snd (protected cl now (Some i) w) = authenticated) =
        (requestCount user < 4 \<or> (\<exists>t. paidUntil user = Some t \<and> now < t)))"
proof -
  have d: "decide user now =
     (if requestCount user < 4 \<or> (\<exists>t. paidUntil user = Some t \<and> now < t)
      then ALLOW else REQUIRE_PAYMENT)"
    by (cases "paidUntil user") (simp_all add: decide_def paid_active_def)
  have p: "(snd (protected cl now (Some i) w) = authenticated) = (decide user now = ALLOW)"
    if "find_user i (users w) = Some user" and "requestCount user < 2147483647"
    using protected_found [OF that(1), of cl now] that(2)
    by (cases "decide user now") (auto simp: authenticated_neq split: sum.split)
  from d p show ?thesis by (auto split: if_splits)
qed

theorem decide_allow_iff_witness:
  "requestCount (alice\<lparr>paidUntil := Some 5000\<rparr>) < 4
   \<and> paidUntil (alice\<lparr>paidUntil := Some 5000\<rparr>) = Some 5000 \<and> (1000::int) < 5000
   \<and> decide (alice\<lparr>paidUntil := Some 5000\<rparr>) 1000 = ALLOW
   \<and> find_user ''carol'' (users demo_world) = Some carol \<and> requestCount carol < 2147483647
   \<and> snd (protected demo_collab 1000 (Some ''carol'') demo_world) \<noteq> authenticated
   \<and> find_user ''bob'' (users demo_world) = Some bob \<and> requestCount bob < 2147483647
   \<and> snd (protected demo_collab 1000 (Some ''bob'') demo_world) = authenticated"
proof -
  have a: "requestCount (alice\<lparr>paidUntil := Some 5000\<rparr>) < 4
     \<and> paidUntil (alice\<lparr>paidUntil := Some 5000\<rparr>) = Some 5000 \<and> (1000::int) < 5000"
    by (simp add: alice_def)
  have c: "requestCount carol < 2147483647"
    and n: "\<not> (requestCount carol < 4 \<or> (\<exists>t. paidUntil carol = Some t \<and> 1000 < t))"
    by (simp_all add: carol_def)
  have b: "requestCount bob < 2147483647"
    and y: "requestCount bob < 4 \<or> (\<exists>t. paidUntil bob = Some t \<and> 1000 < t)"
    by (simp_all add: bob_def)
  from decide_allow_iff [of "alice\<lparr>paidUntil := Some 5000\<rparr>" 1000] a
  have "decide (alice\<lparr>paidUntil := Some 5000\<rparr>) 1000 = ALLOW" by blast
  moreover from decide_allow_iff [of carol 1000 "''carol''" demo_world demo_collab] demo_rows(3) c n
  have "snd (protected demo_collab 1000 (Some ''carol'') demo_world) \<noteq> authenticated" by blast
  moreover from decide_allow_iff [of bob 1000 "''bob''" demo_world demo_collab] demo_rows(2) b y
  have "snd (protected demo_collab 1000 (Some ''bob'') demo_world) = authenticated" by blast
  ultimately show ?thesis using a b c demo_rows by blast
qed

section \<open>The ledger effect of a request (C2)\<close>

text \<open>
  C2, as amended. For a user whose \<open>requestCount\<close> is below 2147483647, the upper bound of
  the column, an ALLOW decision increases the user's \<open>requestCount\<close> by exactly 1 and sets
  \<open>lastLogin\<close> to the request's time, every other field and every other row staying as it
  was; for every user, a REQUIRE_PAYMENT decision leaves the table unchanged.
\<close>

theorem protected_ledger_effect:
  assumes "find_user i (users w) = Some user"
  shows "(decide user now = ALLOW \<and> requestCount user < 2147483647 \<longrightarrow>
            find_user i (users (fst (protected cl now (Some i) w))) =
              Some (user\<lparr>requestCount := requestCount user + 1, lastLogin := now\<rparr>)
          \<and> (\<forall>j. j \<noteq> i \<longrightarrow>
                find_user j (users (fst (protected cl now (Some i) w))) = find_user j (users w)))
       \<and> (decide user now = REQUIRE_PAYMENT \<longrightarrow>
            users (fst (protected cl now (Some i) w)) = users w)"
proof -
  have m: "find_user j (map (\<lambda>u. if uid u = i
             then u\<lparr>requestCount := requestCount u + 1, lastLogin := now\<rparr> else u) (users w))
          = map_option (\<lambda>u. if j = i
             then u\<lparr>requestCount := requestCount u + 1, lastLogin := now\<rparr> else u)
             (find_user j (users w))" for j
    by (rule find_user_update) simp
  have o: "map_option (\<lambda>u. u) x = x" for x :: "User option"
    by (cases x) simp_all
  show ?thesis
    using protected_found [OF assms, of cl now] assms m
    by (cases "decide user now") (auto simp: o)
qed

theorem protected_ledger_effect_witness:
  "find_user ''alice'' (users demo_world) = Some alice \<and> decide alice 1000 = ALLOW
   \<and> requestCount alice < 2147483647
   \<and> find_user ''alice'' (users (fst (protected demo_collab 1000 (Some ''alice'') demo_world))) =
       Some (alice\<lparr>requestCount := 1, lastLogin := 1000\<rparr>)
   \<and> find_user ''bob'' (users (fst (protected demo_collab 1000 (Some ''alice'') demo_world))) =
       Some bob
   \<and> find_user ''carol'' (users demo_world) = Some carol \<and> decide carol 1000 = REQUIRE_PAYMENT
   \<and> users (fst (protected demo_collab 1000 (Some ''carol'') demo_world)) = users demo_world"
proof -
  have da: "decide alice 1000 = ALLOW"
    by (simp add: decide_def alice_def)
  have dc: "decide carol 1000 = REQUIRE_PAYMENT"
    by (simp add: decide_def paid_active_def carol_def)
  have ra: "requestCount alice + 1 = 1" and la: "requestCount alice < 2147483647"
    by (simp_all add: alice_def)
  have ne: "''bob'' \<noteq> ''alice''" by simp
  from protected_ledger_effect [OF demo_rows(1), of 1000 demo_collab] da la ra ne demo_rows(2)
  have "find_user ''alice'' (users (fst (protected demo_collab 1000 (Some ''alice'') demo_world))) =
       Some (alice\<lparr>requestCount := 1, lastLogin := 1000\<rparr>)
     \<and> find_user ''bob'' (users (fst (protected demo_collab 1000 (Some ''alice'') demo_world))) =
       Some bob"
    by simp
  moreover from protected_ledger_effect [OF demo_rows(3), of 1000 demo_collab] dc
  have "users (fst (protected demo_collab 1000 (Some ''carol'') demo_world)) = users demo_world"
    by simp
  ultimately show ?thesis using demo_rows da dc la by simp
qed

text \<open>
  At the bound the claim fails: the decision for a paying user whose counter is 2147483647
  is ALLOW, the database rejects the increment, the handler catches nothing, and the request
  ends in the 500 response with the row as it was.
\<close>

theorem increment_out_of_range_counterexample:
  "find_user ''erin'' (users bound_world) = Some erin
   \<and> requestCount erin = 2147483647
   \<and> decide erin 1000 = ALLOW
   \<and> snd (protected demo_collab 1000 (Some ''erin'') bound_world) = Text 500 ''Internal Server Error''
   \<and> find_user ''erin'' (users (fst (protected demo_collab 1000 (Some ''erin'') bound_world))) =
       Some erin"
proof -
  have d: "decide erin 1000 = ALLOW"
    by (simp add: decide_def paid_active_def erin_def)
  have r: "requestCount erin = 2147483647"
    by (simp add: erin_def)
  from protected_found [OF bound_row, of demo_collab 1000] d r
  have "protected demo_collab 1000 (Some ''erin'') bound_world =
          (bound_world\<lparr>dblog := dblog bound_world @ [FindUniqueById ''erin'']\<rparr>,
           internal_server_error)"
    by simp
  then show ?thesis
    using d r bound_row by (simp add: internal_server_error_def)
qed

section \<open>The expiry under every operation (C3)\<close>




section \<open>The acknowledgment of a verified event (C4)\<close>

text \<open>
  C4, as amended. If signature verification succeeds, the handler answers 200
  \<open>{received: true}\<close> when the event is not a completed checkout, and when it is a completed
  checkout whose client reference names a row of the ledger.
\<close>

theorem webhook_acknowledges:
  assumes "constructEventAsync cl rawBody sig (STRIPE_WEBHOOK_SECRET e) = Inr event"
    and "event_type event \<noteq> ''checkout.session.completed''
         \<or> (\<exists>k u. client_reference_id event = Some k \<and> find_user k (users w) = Some u)"
  shows "snd (webhook cl e now sig rawBody w) = Json 200 [(''received'', JBool True)]"
  using assms by (auto simp: webhook_cases received_def)

theorem webhook_acknowledges_witness:
  "constructEventAsync demo_collab ''bob'' (Some ''whsec'') (STRIPE_WEBHOOK_SECRET demo_env) =
     Inr \<lparr>event_type = ''checkout.session.completed'', client_reference_id = Some ''bob''\<rparr>
   \<and> find_user ''bob'' (users demo_world) = Some bob
   \<and> snd (webhook demo_collab demo_env 1000 (Some ''whsec'') ''bob'' demo_world) =
       Json 200 [(''received'', JBool True)]
   \<and> constructEventAsync demo_collab ''ping'' (Some ''whsec'') (STRIPE_WEBHOOK_SECRET demo_env) =
       Inr \<lparr>event_type = ''ping'', client_reference_id = None\<rparr>
   \<and> snd (webhook demo_collab demo_env 1000 (Some ''whsec'') ''ping'' demo_world) =
       Json 200 [(''received'', JBool True)]"
proof -
  have "snd (webhook demo_collab demo_env 1000 (Some ''whsec'') ''bob'' demo_world) =
       Json 200 [(''received'', JBool True)]"
    by (rule webhook_acknowledges [OF demo_events(1)]) (simp add: demo_rows)
  moreover have "snd (webhook demo_collab demo_env 1000 (Some ''whsec'') ''ping'' demo_world) =
       Json 200 [(''received'', JBool True)]"
    by (rule webhook_acknowledges [OF demo_events(4)]) simp
  ultimately show ?thesis by (simp add: demo_events demo_rows)
qed

text \<open>
  A verified completed checkout for a user that the ledger does not hold is not acknowledged:
  the update throws, the handler catches nothing there, and the request ends in the 500
  response, with the ledger as it was.
\<close>

theorem webhook_missing_user_counterexample:
  "constructEventAsync demo_collab ''ghost'' (Some ''whsec'') (STRIPE_WEBHOOK_SECRET demo_env) =
     Inr \<lparr>event_type = ''checkout.session.completed'', client_reference_id = Some ''ghost''\<rparr>
   \<and> find_user ''ghost'' (users demo_world) = None
   \<and> webhook demo_collab demo_env 1000 (Some ''whsec'') ''ghost'' demo_world =
       (demo_world, Text 500 ''Internal Server Error'')
   \<and> Text 500 ''Internal Server Error'' \<noteq> received"
  by (simp add: webhook_cases demo_events demo_rows internal_server_error_def received_def)

section \<open>The new expiry (C5)\<close>

text \<open>
  C5, as amended. A verified completed-checkout event whose client reference names a row of
  the ledger sets that row's \<open>paidUntil\<close> to the processing time plus one day (86400000 ms):
  the same time of day on the next day.
\<close>

theorem webhook_sets_paidUntil:
  assumes "constructEventAsync cl rawBody sig (STRIPE_WEBHOOK_SECRET e) = Inr event"
    and "event_type event = ''checkout.session.completed''"
    and "client_reference_id event = Some k"
    and "find_user k (users w) = Some u"
  shows "find_user k (users (fst (webhook cl e now sig rawBody w))) =
           Some (u\<lparr>paidUntil := Some (now + 86400000)\<rparr>)"
proof -
  have "find_user k (map (\<lambda>u. if uid u = k then u\<lparr>paidUntil := Some (endOfDay now)\<rparr> else u) (users w))
          = map_option (\<lambda>u. if k = k then u\<lparr>paidUntil := Some (endOfDay now)\<rparr> else u)
             (find_user k (users w))"
    by (rule find_user_update) simp
  then show ?thesis
    using assms by (simp add: webhook_cases endOfDay_def msPerDay_def)
qed

theorem webhook_sets_paidUntil_witness:
  "constructEventAsync demo_collab ''alice'' (Some ''whsec'') (STRIPE_WEBHOOK_SECRET demo_env) =
     Inr \<lparr>event_type = ''checkout.session.completed'', client_reference_id = Some ''alice''\<rparr>
   \<and> find_user ''alice'' (users demo_world) = Some alice
   \<and> find_user ''alice''
        (users (fst (webhook demo_collab demo_env 1000 (Some ''whsec'') ''alice'' demo_world))) =
       Some (alice\<lparr>paidUntil := Some 86401000\<rparr>)"
  using webhook_sets_paidUntil [OF demo_events(2) _ _ demo_rows(1), where now = 1000]
  by (simp add: demo_events demo_rows)

text \<open>
  That is not the start of the next calendar day: an event processed one second after
  midnight sets the expiry one second after the next midnight.
\<close>

theorem webhook_expiry_counterexample:
  "map_option paidUntil
     (find_user ''alice''
        (users (fst (webhook demo_collab demo_env 1000 (Some ''whsec'') ''alice'' demo_world))))
     = Some (Some 86401000)
   \<and> spec_startOfNextDay 1000 = 86400000"
proof -
  have "find_user ''alice''
           (users (fst (webhook demo_collab demo_env 1000 (Some ''whsec'') ''alice'' demo_world)))
        = Some (alice\<lparr>paidUntil := Some 86401000\<rparr>)"
    by (simp add: webhook_cases demo_events demo_rows)
       (simp add: find_user_def demo_world_def alice_def bob_def carol_def endOfDay_def msPerDay_def)
  then show ?thesis
    by (simp add: spec_startOfNextDay_def msPerDay_def)
qed

section \<open>Session credentials (C6)\<close>

text \<open>
  C6, as amended. For a non-empty cookie value, the middleware answers 401 "Invalid token"
  and does not run the rest of the chain whenever \<open>verify\<close> rejects the token; when
  \<open>verify\<close> accepts it, whatever the payload holds under \<open>userId\<close> is put into the context
  and the rest of the chain runs with it.
\<close>

theorem middleware_verify:
  assumes "token \<noteq> []"
  shows "(jwt_verify cl token (JWT_SECRET e) = Inl err \<longrightarrow>
            auth_middleware cl e (CookieValue token) next w = (w, invalid_token e))
       \<and> (jwt_verify cl token (JWT_SECRET e) = Inr payload \<longrightarrow>
            auth_middleware cl e (CookieValue token) next w = next (userId payload) w)"
  using assms by (simp add: auth_middleware_def)

theorem middleware_verify_witness:
  "''forged'' \<noteq> [] \<and> ''jwt:alice'' \<noteq> []
   \<and> jwt_verify demo_collab ''forged'' (JWT_SECRET demo_env) = Inl JwtTokenSignatureMismatched
   \<and> auth_middleware demo_collab demo_env (CookieValue ''forged'') (protected demo_collab 1000) demo_world
       = (demo_world, invalid_token demo_env)
   \<and> jwt_verify demo_collab ''jwt:alice'' (JWT_SECRET demo_env) = Inr \<lparr>userId = Some ''alice''\<rparr>
   \<and> auth_middleware demo_collab demo_env (CookieValue ''jwt:alice'') (protected demo_collab 1000) demo_world
       = protected demo_collab 1000 (Some ''alice'') demo_world"
proof -
  have a: "''forged'' \<noteq> []" and b: "''jwt:alice'' \<noteq> []" by simp_all
  from middleware_verify [OF a, of demo_collab demo_env JwtTokenSignatureMismatched
        "protected demo_collab 1000" demo_world]
       middleware_verify [OF b, of demo_collab demo_env _ "protected demo_collab 1000" demo_world
        "\<lparr>userId = Some ''alice''\<rparr>"]
  show ?thesis by (simp add: demo_tokens)
qed

text \<open>
  The payload is not examined: a signed token whose payload carries no \<open>userId\<close> passes the
  middleware, and \<open>/protected\<close> runs with an undefined \<open>userId\<close> (the lookup then throws,
  and the request ends in the 500 response, not in 401).
\<close>

theorem middleware_accepts_payload_without_userId_counterexample:
  "jwt_verify demo_collab ''jwt:'' (JWT_SECRET demo_env) = Inr \<lparr>userId = None\<rparr>
   \<and> auth_middleware demo_collab demo_env (CookieValue ''jwt:'') (protected demo_collab 1000) demo_world
       = protected demo_collab 1000 None demo_world
   \<and> protected demo_collab 1000 None demo_world = (demo_world, Text 500 ''Internal Server Error'')
   \<and> snd (auth_middleware demo_collab demo_env (CookieValue ''jwt:'') (protected demo_collab 1000) demo_world)
       \<noteq> invalid_token demo_env"
  by (simp add: auth_middleware_def demo_tokens protected_undefined internal_server_error_def
      invalid_token_def)

section \<open>Unverified webhook requests (C7)\<close>

text \<open>
  C7. Whenever the verification of the payload and the signature header fails, the handler
  answers 400 and the world is the one it started from: no row was changed, and no call to
  the table (neither a read nor a write) was made.
\<close>

theorem webhook_rejects_unverified:
  assumes "constructEventAsync cl rawBody sig (STRIPE_WEBHOOK_SECRET e) = Inl err"
  shows "webhook cl e now sig rawBody w =
           (w, Json 400 [(''error'', JStr ''Webhook signature verification failed.'')])"
  using assms by (simp add: webhook_def signature_failed_def)

theorem webhook_rejects_unverified_witness:
  "constructEventAsync demo_collab ''bob'' (Some ''forged'') (STRIPE_WEBHOOK_SECRET demo_env) =
     Inl StripeSignatureVerificationError
   \<and> webhook demo_collab demo_env 1000 (Some ''forged'') ''bob'' demo_world =
       (demo_world, Json 400 [(''error'', JStr ''Webhook signature verification failed.'')])"
  using webhook_rejects_unverified [OF demo_events(5), where now = 1000 and w = demo_world]
  by (simp add: demo_events)

section \<open>The quota is never replenished (C8)\<close>

text \<open>
  C8. No run of requests removes a user's row or lowers its \<open>requestCount\<close>. So once the
  counter has reached 4, in every state a run can reach and at every time at which the
  user's \<open>paidUntil\<close> is absent or not in the future, the decision is REQUIRE_PAYMENT:
  \<open>/protected\<close> does not answer "You are authenticated" and leaves the table unchanged.
\<close>

theorem quota_exhausted_forever:
  assumes "find_user i (users w) = Some u" and "4 \<le> requestCount u"
  shows "\<exists>u'. find_user i (users (fst (run cl e reqs w))) = Some u'
           \<and> requestCount u \<le> requestCount u'
           \<and> (\<forall>now. (\<forall>t. paidUntil u' = Some t \<longrightarrow> t \<le> now) \<longrightarrow>
                  decide u' now = REQUIRE_PAYMENT
                \<and> snd (protected cl now (Some i) (fst (run cl e reqs w))) \<noteq> authenticated
                \<and> users (fst (protected cl now (Some i) (fst (run cl e reqs w)))) =
                    users (fst (run cl e reqs w)))"
proof -
  from run_requestCount [OF assms(1), of cl e reqs]
  obtain u' where u': "find_user i (users (fst (run cl e reqs w))) = Some u'"
    and le: "requestCount u \<le> requestCount u'"
    by blast
  have "decide u' now = REQUIRE_PAYMENT
      \<and> snd (protected cl now (Some i) (fst (run cl e reqs w))) \<noteq> authenticated
      \<and> users (fst (protected cl now (Some i) (fst (run cl e reqs w)))) =
          users (fst (run cl e reqs w))"
    if "\<forall>t. paidUntil u' = Some t \<longrightarrow> t \<le> now" for now
  proof -
    have "\<not> paid_active u' now"
      using that by (cases "paidUntil u'") (auto simp: paid_active_def)
    with le assms(2) have d: "decide u' now = REQUIRE_PAYMENT"
      by (simp add: decide_def)
    with protected_found [OF u', of cl now] show ?thesis
      by (auto simp: authenticated_neq split: sum.split)
  qed
  with u' le show ?thesis by blast
qed

theorem quota_exhausted_forever_witness:
  "find_user ''carol'' (users demo_world) = Some carol \<and> 4 \<le> requestCount carol
   \<and> (\<exists>u'. find_user ''carol'' (users (fst (run demo_collab demo_env
          [(1000, PostWebhook (Some ''whsec'') ''bob''), (2000, GetProtected (CookieValue ''jwt:carol'')),
           (3000, GetProtected (CookieValue ''jwt:alice''))] demo_world))) = Some u'
        \<and> paidUntil u' = None
        \<and> decide u' 4000 = REQUIRE_PAYMENT
        \<and> snd (protected demo_collab 4000 (Some ''carol'') (fst (run demo_collab demo_env
          [(1000, PostWebhook (Some ''whsec'') ''bob''), (2000, GetProtected (CookieValue ''jwt:carol'')),
           (3000, GetProtected (CookieValue ''jwt:alice''))] demo_world))) \<noteq> authenticated)"
proof -
  have q: "4 \<le> requestCount carol" by (simp add: carol_def)
  have f: "find_user ''carol'' (users (fst (run demo_collab demo_env
          [(1000, PostWebhook (Some ''whsec'') ''bob''), (2000, GetProtected (CookieValue ''jwt:carol'')),
           (3000, GetProtected (CookieValue ''jwt:alice''))] demo_world))) = Some carol"
    unfolding demo_run by (simp add: find_user_def alice_def bob_def carol_def)
  have p: "paidUntil carol = None" by (simp add: carol_def)
  from quota_exhausted_forever [OF demo_rows(3) q, of demo_collab demo_env
          "[(1000, PostWebhook (Some ''whsec'') ''bob''), (2000, GetProtected (CookieValue ''jwt:carol'')),
           (3000, GetProtected (CookieValue ''jwt:alice''))]"]
  show ?thesis using f p q demo_rows(3) by auto
qed

section \<open>What the counter counts (C9)\<close>

text \<open>
  C9, as amended. \<open>requestCount\<close> counts the allowed requests: a request that is allowed
  only because \<open>paidUntil\<close> is active (the counter being at 4 or above, and below 2147483647,
  the upper bound of the column) is answered "You are authenticated" and increases
  \<open>requestCount\<close> by 1, like every other allowed request.
\<close>

theorem paid_request_counted:
  assumes "find_user i (users w) = Some user"
    and "4 \<le> requestCount user" and "requestCount user < 2147483647"
    and "paidUntil user = Some t" and "now < t"
  shows "snd (protected cl now (Some i) w) = authenticated
       \<and> find_user i (users (fst (protected cl now (Some i) w))) =
           Some (user\<lparr>requestCount := requestCount user + 1, lastLogin := now\<rparr>)"
proof -
  have d: "decide user now = ALLOW"
    using assms(4,5) by (simp add: decide_def paid_active_def)
  have "find_user i (map (\<lambda>u. if uid u = i
             then u\<lparr>requestCount := requestCount u + 1, lastLogin := now\<rparr> else u) (users w))
          = map_option (\<lambda>u. if i = i
             then u\<lparr>requestCount := requestCount u + 1, lastLogin := now\<rparr> else u)
             (find_user i (users w))"
    by (rule find_user_update) simp
  then show ?thesis
    using protected_found [OF assms(1), of cl now] d assms(1,3) by simp
qed

theorem paid_request_counted_witness:
  "find_user ''bob'' (users demo_world) = Some bob \<and> 4 \<le> requestCount bob
   \<and> requestCount bob < 2147483647
   \<and> paidUntil bob = Some 50000000 \<and> (1000::int) < 50000000
   \<and> snd (protected demo_collab 1000 (Some ''bob'') demo_world) = authenticated
   \<and> find_user ''bob'' (users (fst (protected demo_collab 1000 (Some ''bob'') demo_world))) =
       Some (bob\<lparr>requestCount := 11, lastLogin := 1000\<rparr>)"
proof -
  have q: "4 \<le> requestCount bob" and b: "requestCount bob < 2147483647"
    and p: "paidUntil bob = Some 50000000" and r: "requestCount bob + 1 = 11"
    by (simp_all add: bob_def)
  have l: "(1000::int) < 50000000" by simp
  from paid_request_counted [OF demo_rows(2) q b p l, of demo_collab] r
  show ?thesis using demo_rows(2) q b p by simp
qed

text \<open>
  The counter of a paying user at 10 is 11 after the request, so it does not stay put.
\<close>

theorem paid_request_counted_counterexample:
  "find_user ''bob'' (users demo_world) = Some bob
   \<and> requestCount bob = 10 \<and> paidUntil bob = Some 50000000
   \<and> snd (protected demo_collab 1000 (Some ''bob'') demo_world) = authenticated
   \<and> map_option requestCount
        (find_user ''bob'' (users (fst (protected demo_collab 1000 (Some ''bob'') demo_world))))
       = Some 11"
proof -
  have d: "decide bob 1000 = ALLOW"
    by (simp add: decide_def paid_active_def bob_def)
  have b: "requestCount bob < 2147483647"
    by (simp add: bob_def)
  have "protected demo_collab 1000 (Some ''bob'') demo_world =
      (demo_world\<lparr>users := map (\<lambda>u. if uid u = ''bob''
                                then u\<lparr>requestCount := requestCount u + 1, lastLogin := 1000\<rparr>
                                else u) (users demo_world),
             dblog := dblog demo_world @ [FindUniqueById ''bob'', UpdateRow ''bob'']\<rparr>, authenticated)"
    using protected_found [OF demo_rows(2), of demo_collab 1000] d b by simp
  then show ?thesis
    by (simp add: demo_rows) (simp add: find_user_def demo_world_def alice_def bob_def carol_def)
qed

section \<open>A webhook request without the signature header (C10)\<close>

text \<open>
  C10. A webhook request that carries no \<open>stripe-signature\<close> header is answered with the
  400 signature-failure response, whatever its body; the world is unchanged (no row changed,
  no call to the table), and the answer is neither an acknowledgment nor the 500 response.
\<close>

theorem webhook_missing_header:
  "webhook cl e now None rawBody w =
     (w, Json 400 [(''error'', JStr ''Webhook signature verification failed.'')])"
  by (simp add: webhook_def constructEventAsync_def signature_failed_def)

end
